theory Spec2Isabelle
  imports Main "HOL-Library.AList"
begin

section \<open>Python values, classes and exceptions\<close>

text \<open>
  The module \<^verbatim>\<open>src/attr/_funcs.py\<close> works on classes that carry the slot
  \<^verbatim>\<open>__attrs_attrs__\<close> (a sequence of attributes, each with a name and an optional
  declared type), on type expressions of the \<^verbatim>\<open>typing\<close> module, and on ordinary Python
  values. A class or type expression is a \<open>pytype\<close>:
  \<^item> \<open>TClass n slot\<close> is a class named \<open>n\<close>; \<open>slot\<close> is what
    \<^verbatim>\<open>getattr(cls, "__attrs_attrs__", None)\<close> returns;
  \<^item> \<open>TUnion ps\<close> is \<^verbatim>\<open>Union[...]\<close> with \<^verbatim>\<open>__union_params__ == ps\<close>
    (\<^verbatim>\<open>Optional[X]\<close> is \<^verbatim>\<open>Union[X, NoneType]\<close>);
  \<^item> \<open>TDict p\<close> is a subclass of \<^verbatim>\<open>Dict\<close>, \<open>p\<close> its \<^verbatim>\<open>__parameters__\<close> when it has them;
  \<^item> \<open>TIterable n p\<close> is a subclass of \<^verbatim>\<open>Iterable\<close> other than \<^verbatim>\<open>str\<close> and
    \<^verbatim>\<open>Dict\<close>, with \<^verbatim>\<open>__name__ == n\<close> and \<^verbatim>\<open>__parameters__\<close> \<open>p\<close>;
  \<^item> \<open>TNoneType\<close>, \<open>TStr\<close> and \<open>TAny\<close> are \<^verbatim>\<open>type(None)\<close>, \<^verbatim>\<open>str\<close> and \<^verbatim>\<open>Any\<close>.
\<close>

datatype pytype =
    TClass string "attribute list option"
  | TNoneType
  | TStr
  | TAny
  | TUnion "pytype list"
  | TDict "(pytype \<times> pytype) option"
  | TIterable string "pytype option"
and attribute = Attribute (name: string) (type: "pytype option")

text \<open>
  Values. A set and a dict are kept as lists in iteration order (a dict in insertion
  order, with unique keys); an instance is its class and its attribute dictionary.
\<close>

datatype val =
    VNone
  | VInt int
  | VStr string
  | VList "val list"
  | VTuple "val list"
  | VSet "val list"
  | VDict "(val \<times> val) list"
  | VInst pytype "(string \<times> val) list"

text \<open>
  Exceptions. The message of the \<^verbatim>\<open>TypeError\<close> that \<^verbatim>\<open>deserialize_val\<close> raises is kept
  structured: \<open>Unable val typ context reason\<close> stands for
  \<^verbatim>\<open>"Unable to deserialize {val} as {typ} at {context} because {reason}"\<close>, and
  \<open>NotAnAttribute k cl\<close> for \<^verbatim>\<open>"{k} is not an attrs attribute on {cl}."\<close>.
\<close>

datatype msg =
    Msg string
  | NotAnAttribute string pytype
  | NotAnAttrsClass pytype
  | Unable val pytype string msg

datatype exn =
    TypeError msg
  | KeyError string
  | AttributeError string
  | ValueError msg
  | Exception string

type_synonym filter_fn = "attribute \<Rightarrow> val \<Rightarrow> exn + bool"

section \<open>\<^verbatim>\<open>has\<close>\<close>

text \<open>\<^verbatim>\<open>getattr(cls, "__attrs_attrs__", None)\<close>: only a class can carry the slot.\<close>

definition attrs_attrs :: "pytype \<Rightarrow> attribute list option" where
  "attrs_attrs cls = (case cls of TClass n slot \<Rightarrow> slot | _ \<Rightarrow> None)"

definition has :: "pytype \<Rightarrow> bool" where
  "has cls = (attrs_attrs cls \<noteq> None)"

text \<open>
  Modelled from the spec: \<^verbatim>\<open>fields\<close> of \<^verbatim>\<open>attr._make\<close> is not among the sources. It
  returns the ordered sequence of field descriptors that a declaratively-attributed class
  carries, and fails on a class without them.
\<close>

definition fields :: "pytype \<Rightarrow> exn + attribute list" where
  "fields cls =
     (case attrs_attrs cls of
        None \<Rightarrow> Inl (ValueError (NotAnAttrsClass cls))
      | Some attrs \<Rightarrow> Inr attrs)"

section \<open>Built-in operations the module relies on\<close>

text \<open>\<^verbatim>\<open>v.__class__\<close>.\<close>

fun class_of :: "val \<Rightarrow> pytype" where
  "class_of VNone = TNoneType"
| "class_of (VInt i) = TClass ''int'' None"
| "class_of (VStr s) = TStr"
| "class_of (VList xs) = TIterable ''list'' None"
| "class_of (VTuple xs) = TIterable ''tuple'' None"
| "class_of (VSet xs) = TIterable ''set'' None"
| "class_of (VDict kvs) = TDict None"
| "class_of (VInst cls d) = cls"

text \<open>\<^verbatim>\<open>getattr(inst, n)\<close> for an attribute name \<open>n\<close>.\<close>

fun getattr :: "val \<Rightarrow> string \<Rightarrow> exn + val" where
  "getattr (VInst cls d) n =
     (case map_of d n of None \<Rightarrow> Inl (AttributeError n) | Some v \<Rightarrow> Inr v)"
| "getattr v n = Inl (AttributeError n)"

text \<open>
  Hashing: lists, sets and dicts are unhashable, a tuple hashes its elements, an
  instance of a class with attributes hashes the tuple of its attribute values (the
  \<^verbatim>\<open>__hash__\<close> that \<^verbatim>\<open>attr.s\<close> generates by default), and any other object hashes by
  identity.
\<close>

fun hashable :: "val \<Rightarrow> bool" where
  "hashable VNone = True"
| "hashable (VInt i) = True"
| "hashable (VStr s) = True"
| "hashable (VList xs) = False"
| "hashable (VTuple xs) = list_all hashable xs"
| "hashable (VSet xs) = False"
| "hashable (VDict kvs) = False"
| "hashable (VInst cls d) = (if has cls then list_all (\<lambda>(n, v). hashable v) d else True)"

definition unhashable :: exn where
  "unhashable = TypeError (Msg ''unhashable type'')"

text \<open>\<^verbatim>\<open>list(xs)\<close>, \<^verbatim>\<open>tuple(xs)\<close> and \<^verbatim>\<open>set(xs)\<close> of a list \<open>xs\<close>.\<close>

definition mk_list :: "val list \<Rightarrow> exn + val" where
  "mk_list xs = Inr (VList xs)"

definition mk_tuple :: "val list \<Rightarrow> exn + val" where
  "mk_tuple xs = Inr (VTuple xs)"

definition mk_set :: "val list \<Rightarrow> exn + val" where
  "mk_set xs = (if list_all hashable xs then Inr (VSet (remdups xs)) else Inl unhashable)"

text \<open>Iterating over a value (\<^verbatim>\<open>for v in a\<close>): a dict yields its keys, a string its characters.\<close>

fun iter :: "val \<Rightarrow> exn + val list" where
  "iter (VList xs) = Inr xs"
| "iter (VTuple xs) = Inr xs"
| "iter (VSet xs) = Inr xs"
| "iter (VDict kvs) = Inr (map fst kvs)"
| "iter (VStr s) = Inr (map (\<lambda>c. VStr [c]) s)"
| "iter v = Inl (TypeError (Msg ''object is not iterable''))"

text \<open>
  Calling a method that only dicts have (\<^verbatim>\<open>a.items()\<close>, \<^verbatim>\<open>dct.get(k)\<close>) on another
  value: \<^verbatim>\<open>AttributeError\<close>, or \<^verbatim>\<open>TypeError\<close> when an instance has an attribute of that
  name, which is no callable.
\<close>

definition no_method :: "val \<Rightarrow> string \<Rightarrow> exn" where
  "no_method v m =
     (case getattr v m of
        Inl e \<Rightarrow> e
      | Inr x \<Rightarrow> TypeError (Msg ''object is not callable''))"

fun items :: "val \<Rightarrow> exn + (val \<times> val) list" where
  "items (VDict kvs) = Inr kvs"
| "items v = Inl (no_method v ''items'')"

fun dict_get :: "val \<Rightarrow> string \<Rightarrow> exn + val" where
  "dict_get (VDict kvs) k =
     (case map_of kvs (VStr k) of None \<Rightarrow> Inr VNone | Some v \<Rightarrow> Inr v)"
| "dict_get v k = Inl (no_method v ''get'')"

fun is_prefix :: "string \<Rightarrow> string \<Rightarrow> bool" where
  "is_prefix [] ys = True"
| "is_prefix (x # xs) [] = False"
| "is_prefix (x # xs) (y # ys) = (x = y \<and> is_prefix xs ys)"

fun is_substring :: "string \<Rightarrow> string \<Rightarrow> bool" where
  "is_substring xs [] = (xs = [])"
| "is_substring xs (y # ys) = (is_prefix xs (y # ys) \<or> is_substring xs ys)"

text \<open>\<^verbatim>\<open>k in dct\<close> for a string \<open>k\<close>.\<close>

fun contains :: "val \<Rightarrow> string \<Rightarrow> exn + bool" where
  "contains (VDict kvs) k = Inr (map_of kvs (VStr k) \<noteq> None)"
| "contains (VList xs) k = Inr (VStr k \<in> set xs)"
| "contains (VTuple xs) k = Inr (VStr k \<in> set xs)"
| "contains (VSet xs) k = Inr (VStr k \<in> set xs)"
| "contains (VStr s) k = Inr (is_substring k s)"
| "contains v k = Inl (TypeError (Msg ''argument is not iterable''))"

text \<open>\<^verbatim>\<open>dct[k]\<close> for a string \<open>k\<close>.\<close>

fun getitem :: "val \<Rightarrow> string \<Rightarrow> exn + val" where
  "getitem (VDict kvs) k =
     (case map_of kvs (VStr k) of None \<Rightarrow> Inl (KeyError k) | Some v \<Rightarrow> Inr v)"
| "getitem (VList xs) k = Inl (TypeError (Msg ''indices must be integers''))"
| "getitem (VTuple xs) k = Inl (TypeError (Msg ''indices must be integers''))"
| "getitem (VStr s) k = Inl (TypeError (Msg ''indices must be integers''))"
| "getitem v k = Inl (TypeError (Msg ''object is not subscriptable''))"

text \<open>\<^verbatim>\<open>'.'.join(context)\<close> and the path \<^verbatim>\<open>'.'.join(context) + '.' + key_name\<close>.\<close>

fun join_dot :: "string list \<Rightarrow> string" where
  "join_dot [] = []"
| "join_dot [x] = x"
| "join_dot (x # y # ys) = x @ ''.'' @ join_dot (y # ys)"

definition path :: "string list \<Rightarrow> string \<Rightarrow> string" where
  "path context key_name = join_dot context @ ''.'' @ key_name"

section \<open>\<^verbatim>\<open>asdict\<close>\<close>

lemma size_map_of:
  "map_of d n = Some v \<Longrightarrow> size v < Suc (size_list (size_prod (\<lambda>x. 0) size) d)"
  by (induction d) (auto split: if_splits)

lemma getattr_size: "getattr inst n = Inr v \<Longrightarrow> size v < size inst"
  by (cases inst) (auto split: option.splits dest: size_map_of)

text \<open>
  \<open>asdict\<close> is the function, \<open>asdict_attrs\<close> its loop over the attributes with the
  dictionary \<open>rv\<close> built so far, \<open>asdict_value\<close> the value that the branches of
  \<^verbatim>\<open>if recurse is True: ... else: ...\<close> store under \<^verbatim>\<open>rv[a.name]\<close>, \<open>asdict_elems\<close> the
  list comprehension over the elements of a tuple, list or set, and \<open>asdict_items\<close> the
  generator over the items of a dict, consumed by the dictionary under construction.
  The nested calls pass what the source passes: \<^verbatim>\<open>recurse=True\<close> and \<^verbatim>\<open>filter\<close> for
  an attribute value and for an element, neither \<^verbatim>\<open>filter\<close> nor
  \<^verbatim>\<open>retain_collection_types\<close> for a key or value of a dict. \<^verbatim>\<open>dict_factory\<close> is
  \<^verbatim>\<open>dict\<close>.
\<close>

function (sequential)
  asdict :: "val \<Rightarrow> bool \<Rightarrow> filter_fn option \<Rightarrow> bool \<Rightarrow> exn + val"
and asdict_attrs :: "val \<Rightarrow> bool \<Rightarrow> filter_fn option \<Rightarrow> bool \<Rightarrow> attribute list
    \<Rightarrow> (val \<times> val) list \<Rightarrow> exn + val"
and asdict_value :: "val \<Rightarrow> bool \<Rightarrow> filter_fn option \<Rightarrow> bool \<Rightarrow> exn + val"
and asdict_elems :: "filter_fn option \<Rightarrow> val list \<Rightarrow> exn + val list"
and asdict_items :: "(val \<times> val) list \<Rightarrow> (val \<times> val) list \<Rightarrow> exn + val"
where
  "asdict inst recurse filter' retain_collection_types =
     (case fields (class_of inst) of
        Inl e \<Rightarrow> Inl e
      | Inr attrs \<Rightarrow> asdict_attrs inst recurse filter' retain_collection_types attrs [])"
| "asdict_attrs inst recurse filter' retain_collection_types [] rv = Inr (VDict rv)"
| "asdict_attrs inst recurse filter' retain_collection_types (a # as) rv =
     (case getattr inst (name a) of
        Inl e \<Rightarrow> Inl e
      | Inr v \<Rightarrow>
         (case (case filter' of None \<Rightarrow> Inr True | Some f \<Rightarrow> f a v) of
            Inl e \<Rightarrow> Inl e
          | Inr False \<Rightarrow> asdict_attrs inst recurse filter' retain_collection_types as rv
          | Inr True \<Rightarrow>
             (case asdict_value v recurse filter' retain_collection_types of
                Inl e \<Rightarrow> Inl e
              | Inr w \<Rightarrow>
                  asdict_attrs inst recurse filter' retain_collection_types as
                    (AList.update (VStr (name a)) w rv))))"
| "asdict_value v recurse filter' retain_collection_types =
     (if recurse then
        (if has (class_of v) then asdict v True filter' False
         else (case v of
             VTuple xs \<Rightarrow>
               (case asdict_elems filter' xs of
                  Inl e \<Rightarrow> Inl e
                | Inr ws \<Rightarrow> if retain_collection_types then mk_tuple ws else mk_list ws)
           | VList xs \<Rightarrow>
               (case asdict_elems filter' xs of
                  Inl e \<Rightarrow> Inl e
                | Inr ws \<Rightarrow> mk_list ws)
           | VSet xs \<Rightarrow>
               (case asdict_elems filter' xs of
                  Inl e \<Rightarrow> Inl e
                | Inr ws \<Rightarrow> if retain_collection_types then mk_set ws else mk_list ws)
           | VDict kvs \<Rightarrow> asdict_items kvs []
           | _ \<Rightarrow> Inr v))
      else Inr v)"
| "asdict_elems filter' [] = Inr []"
| "asdict_elems filter' (i # rest) =
     (case (if has (class_of i) then asdict i True filter' False else Inr i) of
        Inl e \<Rightarrow> Inl e
      | Inr w \<Rightarrow>
         (case asdict_elems filter' rest of
            Inl e \<Rightarrow> Inl e
          | Inr ws \<Rightarrow> Inr (w # ws)))"
| "asdict_items [] acc = Inr (VDict acc)"
| "asdict_items ((kk, vv) # kvs) acc =
     (case (if has (class_of kk) then asdict kk True None False else Inr kk) of
        Inl e \<Rightarrow> Inl e
      | Inr k \<Rightarrow>
         (case (if has (class_of vv) then asdict vv True None False else Inr vv) of
            Inl e \<Rightarrow> Inl e
          | Inr w \<Rightarrow>
             if hashable k then asdict_items kvs (AList.update k w acc)
             else Inl unhashable))"
  by pat_completeness auto
termination
  apply (relation "measures [
     (\<lambda>x. case x of
         Inl (Inl (inst, r)) \<Rightarrow> size inst
       | Inl (Inr (inst, r)) \<Rightarrow> size inst
       | Inr (Inl (v, r)) \<Rightarrow> size v
       | Inr (Inr (Inl (f, xs))) \<Rightarrow> size_list size xs
       | Inr (Inr (Inr (kvs, acc))) \<Rightarrow> size_list (size_prod size size) kvs),
     (\<lambda>x. case x of
         Inl (Inl r) \<Rightarrow> 1
       | Inr (Inl r) \<Rightarrow> 2
       | _ \<Rightarrow> 0),
     (\<lambda>x. case x of
         Inl (Inr (inst, r, f, t, as, rv)) \<Rightarrow> length as
       | _ \<Rightarrow> 0)]")
  apply (auto dest: getattr_size)
  done

section \<open>\<^verbatim>\<open>fromdict\<close>\<close>

text \<open>
  The arguments of \<^verbatim>\<open>fromdict\<close> that stay fixed during the recursion. \<open>str_of\<close> is the
  built-in \<^verbatim>\<open>str\<close>, which the source applies to the keys of a dict to name the
  position of a value (\<^verbatim>\<open>name + str(k)\<close>).
\<close>

datatype opts = Opts
  (recurse: bool)
  (ignore_missing: bool)
  (rename: "string \<Rightarrow> string")
  (union_discriminator: "val \<Rightarrow> pytype \<Rightarrow> exn + pytype")
  (str_of: "val \<Rightarrow> string")

text \<open>The tests that \<^verbatim>\<open>deserialize_val\<close> makes on the declared type.\<close>

definition issubclass_Union :: "pytype \<Rightarrow> bool" where
  "issubclass_Union typ = (case typ of TUnion ps \<Rightarrow> True | _ \<Rightarrow> False)"

definition union_params :: "pytype \<Rightarrow> pytype list" where
  "union_params typ = (case typ of TUnion ps \<Rightarrow> ps | _ \<Rightarrow> [])"

definition is_optional :: "pytype \<Rightarrow> bool" where
  "is_optional typ =
     (if issubclass_Union typ \<and> typ \<noteq> TAny
      then list_ex (\<lambda>p. p = TNoneType) (union_params typ)
      else False)"

definition issubclass_Dict :: "pytype \<Rightarrow> bool" where
  "issubclass_Dict typ = (case typ of TDict p \<Rightarrow> True | _ \<Rightarrow> False)"

definition issubclass_Iterable :: "pytype \<Rightarrow> bool" where
  "issubclass_Iterable typ =
     (case typ of TIterable n p \<Rightarrow> True | TDict p \<Rightarrow> True | TStr \<Rightarrow> True | _ \<Rightarrow> False)"

text \<open>\<^verbatim>\<open>typ.__parameters__\<close>, or \<open>None\<close> where \<^verbatim>\<open>hasattr(typ, '__parameters__')\<close> is false.\<close>

definition parameters :: "pytype \<Rightarrow> pytype list option" where
  "parameters typ =
     (case typ of
        TDict (Some (k, v)) \<Rightarrow> Some [k, v]
      | TIterable n (Some g) \<Rightarrow> Some [g]
      | _ \<Rightarrow> None)"

definition type_name :: "pytype \<Rightarrow> string" where
  "type_name typ =
     (case typ of
        TIterable n p \<Rightarrow> n
      | TClass n slot \<Rightarrow> n
      | TDict p \<Rightarrow> ''Dict''
      | TStr \<Rightarrow> ''str''
      | TNoneType \<Rightarrow> ''NoneType''
      | TAny \<Rightarrow> ''Any''
      | TUnion ps \<Rightarrow> ''Union'')"

text \<open>
  \<^verbatim>\<open>Union[tuple(ts)]\<close> of the \<^verbatim>\<open>typing\<close> module: no union of no types, and the union
  of a single type is that type.
\<close>

definition mk_Union :: "pytype list \<Rightarrow> exn + pytype" where
  "mk_Union ts =
     (case ts of
        [] \<Rightarrow> Inl (TypeError (Msg ''Cannot take a Union of no types.''))
      | [t] \<Rightarrow> Inr t
      | _ \<Rightarrow> Inr (TUnion ts))"

text \<open>
  Modelled from the spec: the constructor \<^verbatim>\<open>cls(**cons)\<close> is generated by
  \<^verbatim>\<open>attr._make\<close>, which is not among the sources. It builds the instance of the class
  that holds the assembled field values.
\<close>

definition construct :: "pytype \<Rightarrow> (string \<times> val) list \<Rightarrow> val" where
  "construct cls cons = VInst cls cons"

text \<open>
  The handler \<^verbatim>\<open>except TypeError as e: raise TypeError("Unable to deserialize ...")\<close>
  around the body of \<^verbatim>\<open>deserialize_val\<close>.
\<close>

definition reraise :: "val \<Rightarrow> pytype \<Rightarrow> string \<Rightarrow> (exn + val) option \<Rightarrow> (exn + val) option" where
  "reraise a typ context r =
     (case r of
        Some (Inl (TypeError reason)) \<Rightarrow> Some (Inl (TypeError (Unable a typ context reason)))
      | _ \<Rightarrow> r)"

text \<open>
  \<open>fromdict_inner\<close> is \<^verbatim>\<open>_fromdict\<close>, \<open>fromdict_attrs\<close> its loop over the attributes
  with the dictionary \<open>cons\<close> built so far, \<open>deserialize_val\<close> the closure of that name
  (with the \<open>context\<close> and the \<open>key_name\<close> it reads from the enclosing frame),
  \<open>deserialize_elems\<close> its list comprehension and \<open>deserialize_items\<close> its dict
  comprehension, which evaluates the key before the value, as the source writes them
  (a Python before 3.8 evaluates the value first; the two orders differ only in which
  of two failures is reported). The first argument bounds the depth of calls: a
  discriminator may answer with the union it was asked about, and then the source
  recurses without end; \<open>None\<close> is the result of a call that needs more depth than it
  was given.
\<close>

function (sequential)
  fromdict_inner :: "nat \<Rightarrow> opts \<Rightarrow> pytype \<Rightarrow> val \<Rightarrow> string list \<Rightarrow> (exn + val) option"
and fromdict_attrs :: "nat \<Rightarrow> opts \<Rightarrow> pytype \<Rightarrow> val \<Rightarrow> string list \<Rightarrow> attribute list
    \<Rightarrow> (string \<times> val) list \<Rightarrow> (exn + val) option"
and deserialize_val :: "nat \<Rightarrow> opts \<Rightarrow> string list \<Rightarrow> string \<Rightarrow> val \<Rightarrow> pytype \<Rightarrow> string
    \<Rightarrow> (exn + val) option"
and deserialize_elems :: "nat \<Rightarrow> opts \<Rightarrow> string list \<Rightarrow> string \<Rightarrow> val list \<Rightarrow> pytype
    \<Rightarrow> string \<Rightarrow> (exn + val list) option"
and deserialize_items :: "nat \<Rightarrow> opts \<Rightarrow> string list \<Rightarrow> string \<Rightarrow> (val \<times> val) list
    \<Rightarrow> pytype \<Rightarrow> pytype \<Rightarrow> string \<Rightarrow> (val \<times> val) list \<Rightarrow> (exn + val) option"
where
  "fromdict_inner 0 P cls dct context = None"
| "fromdict_inner (Suc n) P cls dct context =
     (case fields cls of
        Inl e \<Rightarrow> Some (Inl e)
      | Inr attrs \<Rightarrow> fromdict_attrs n P cls dct context attrs [])"
| "fromdict_attrs n P cls dct context [] cons = Some (Inr (construct cls cons))"
| "fromdict_attrs n P cls dct context (a # as) cons =
     (let key_name = rename P (name a) in
      case (if ignore_missing P then dict_get dct key_name
            else (case contains dct key_name of
                Inl e \<Rightarrow> Inl e
              | Inr True \<Rightarrow> getitem dct key_name
              | Inr False \<Rightarrow> Inl (KeyError (path context key_name)))) of
        Inl e \<Rightarrow> Some (Inl e)
      | Inr v \<Rightarrow>
         (case (if recurse P
                then (case type a of
                    None \<Rightarrow> Some (Inr v)
                  | Some typ \<Rightarrow> deserialize_val n P context key_name v typ key_name)
                else Some (Inr v)) of
            None \<Rightarrow> None
          | Some (Inl e) \<Rightarrow> Some (Inl e)
          | Some (Inr w) \<Rightarrow>
              fromdict_attrs n P cls dct context as (AList.update (name a) w cons)))"
| "deserialize_val 0 P context key_name a typ nm = None"
| "deserialize_val (Suc n) P context key_name a typ nm =
     reraise a typ (path context key_name)
      (if has typ then fromdict_inner n P typ a (context @ [nm])
       else if is_optional typ then
         (if a = VNone then Some (Inr VNone)
          else if length (union_params typ) > 2 then
            (case mk_Union (filter (\<lambda>t. t \<noteq> TNoneType) (union_params typ)) of
               Inl e \<Rightarrow> Some (Inl e)
             | Inr u \<Rightarrow> deserialize_val n P context key_name a u nm)
          else deserialize_val n P context key_name a (hd (union_params typ)) nm)
       else if issubclass_Dict typ then
         (case parameters typ of
            Some [key_gen, val_gen] \<Rightarrow>
              (case items a of
                 Inl e \<Rightarrow> Some (Inl e)
               | Inr kvs \<Rightarrow>
                   deserialize_items n P context key_name kvs key_gen val_gen nm [])
          | _ \<Rightarrow> Some (Inr a))
       else if issubclass_Iterable typ \<and> typ \<noteq> TStr then
         (let mk = (if type_name typ = ''Tuple'' \<or> type_name typ = ''tuple'' then mk_tuple
                    else if type_name typ = ''Set'' \<or> type_name typ = ''set'' then mk_set
                    else mk_list) in
          case parameters typ of
            Some (gen # ps) \<Rightarrow>
              (case iter a of
                 Inl e \<Rightarrow> Some (Inl e)
               | Inr vs \<Rightarrow>
                  (case deserialize_elems n P context key_name vs gen (nm @ ''[]'') of
                     None \<Rightarrow> None
                   | Some (Inl e) \<Rightarrow> Some (Inl e)
                   | Some (Inr ws) \<Rightarrow> Some (mk ws)))
          | _ \<Rightarrow>
              (case iter a of
                 Inl e \<Rightarrow> Some (Inl e)
               | Inr vs \<Rightarrow> Some (mk vs)))
       else if issubclass_Union typ then
         (case union_discriminator P a typ of
            Inl e \<Rightarrow> Some (Inl e)
          | Inr actual_type \<Rightarrow> deserialize_val n P context key_name a actual_type nm)
       else Some (Inr a))"
| "deserialize_elems n P context key_name [] gen nm = Some (Inr [])"
| "deserialize_elems n P context key_name (v # vs) gen nm =
     (case deserialize_val n P context key_name v gen nm of
        None \<Rightarrow> None
      | Some (Inl e) \<Rightarrow> Some (Inl e)
      | Some (Inr w) \<Rightarrow>
         (case deserialize_elems n P context key_name vs gen nm of
            None \<Rightarrow> None
          | Some (Inl e) \<Rightarrow> Some (Inl e)
          | Some (Inr ws) \<Rightarrow> Some (Inr (w # ws))))"
| "deserialize_items n P context key_name [] key_gen val_gen nm acc = Some (Inr (VDict acc))"
| "deserialize_items n P context key_name ((k, v) # kvs) key_gen val_gen nm acc =
     (case deserialize_val n P context key_name k key_gen nm of
        None \<Rightarrow> None
      | Some (Inl e) \<Rightarrow> Some (Inl e)
      | Some (Inr k') \<Rightarrow>
         (case deserialize_val n P context key_name v val_gen (nm @ str_of P k) of
            None \<Rightarrow> None
          | Some (Inl e) \<Rightarrow> Some (Inl e)
          | Some (Inr v') \<Rightarrow>
              if hashable k'
              then deserialize_items n P context key_name kvs key_gen val_gen nm
                     (AList.update k' v' acc)
              else Some (Inl unhashable)))"
  by pat_completeness auto
termination
  apply (relation "measures [
     (\<lambda>x. case x of
         Inl (Inl (n, r)) \<Rightarrow> n
       | Inl (Inr (n, r)) \<Rightarrow> n
       | Inr (Inl (n, r)) \<Rightarrow> n
       | Inr (Inr (Inl (n, r))) \<Rightarrow> n
       | Inr (Inr (Inr (n, r))) \<Rightarrow> n),
     (\<lambda>x. case x of
         Inl (Inl r) \<Rightarrow> 0
       | Inl (Inr r) \<Rightarrow> 1
       | Inr (Inl r) \<Rightarrow> 0
       | Inr (Inr (Inl r)) \<Rightarrow> 1
       | Inr (Inr (Inr r)) \<Rightarrow> 1),
     (\<lambda>x. case x of
         Inl (Inr (n, P, cls, dct, context, as, cons)) \<Rightarrow> length as
       | Inr (Inr (Inl (n, P, context, key_name, vs, r))) \<Rightarrow> length vs
       | Inr (Inr (Inr (n, P, context, key_name, kvs, r))) \<Rightarrow> length kvs
       | _ \<Rightarrow> 0)]")
  apply auto
  done

definition default_discriminator :: "val \<Rightarrow> pytype \<Rightarrow> exn + pytype" where
  "default_discriminator v t = Inr TAny"

definition fromdict :: "nat \<Rightarrow> opts \<Rightarrow> pytype \<Rightarrow> val \<Rightarrow> (exn + val) option" where
  "fromdict n P cls dct = fromdict_inner n P cls dct []"

section \<open>\<^verbatim>\<open>assoc\<close>\<close>






section \<open>Instances and examples\<close>


text \<open>The class \<^verbatim>\<open>C\<close> of the tests, with the untyped attributes \<^verbatim>\<open>x\<close> and \<^verbatim>\<open>y\<close>.\<close>

definition class_C :: pytype where
  "class_C = TClass ''C'' (Some [Attribute ''x'' None, Attribute ''y'' None])"

definition inst_C :: "val \<Rightarrow> val \<Rightarrow> val" where
  "inst_C x y = VInst class_C [(''x'', x), (''y'', y)]"

text \<open>A class with one untyped attribute \<^verbatim>\<open>d\<close>, and a filter that drops attributes named \<^verbatim>\<open>y\<close>.\<close>

definition class_Outer :: pytype where
  "class_Outer = TClass ''Outer'' (Some [Attribute ''d'' None])"

definition drop_y :: filter_fn where
  "drop_y a v = Inr (name a \<noteq> ''y'')"

text \<open>
  The exceptions that can leave \<^verbatim>\<open>fromdict\<close>: those that the discriminator raised, the
  \<^verbatim>\<open>TypeError\<close>, \<^verbatim>\<open>AttributeError\<close> and \<^verbatim>\<open>ValueError\<close> of the built-in operations, and
  the \<^verbatim>\<open>KeyError\<close> of a missing key unless \<^verbatim>\<open>ignore_missing\<close> is set.
\<close>

definition may_raise :: "opts \<Rightarrow> exn \<Rightarrow> bool" where
  "may_raise P e =
     ((\<exists>v t. union_discriminator P v t = Inl e)
      \<or> (case e of
            TypeError m \<Rightarrow> True
          | AttributeError s \<Rightarrow> True
          | ValueError m \<Rightarrow> True
          | KeyError s \<Rightarrow> \<not> ignore_missing P
          | Exception s \<Rightarrow> False))"

text \<open>
  A class \<^verbatim>\<open>D\<close> with one attribute \<^verbatim>\<open>f\<close> of a given declared type, and callbacks that
  raise a given exception.
\<close>

definition class_D :: "pytype \<Rightarrow> pytype" where
  "class_D ty = TClass ''D'' (Some [Attribute ''f'' (Some ty)])"



text \<open>
  The exceptions that can leave \<^verbatim>\<open>asdict\<close>: those that the filter raised, and the
  \<^verbatim>\<open>TypeError\<close> of an unhashable key or element, the \<^verbatim>\<open>AttributeError\<close> of a missing
  attribute and the \<^verbatim>\<open>ValueError\<close> of \<^verbatim>\<open>fields\<close>.
\<close>

definition filter_raise :: "filter_fn option \<Rightarrow> exn \<Rightarrow> bool" where
  "filter_raise flt e =
     ((\<exists>f a v. flt = Some f \<and> f a v = Inl e)
      \<or> e = unhashable \<or> (\<exists>s. e = AttributeError s) \<or> (\<exists>m. e = ValueError m))"

section \<open>Properties of \<^verbatim>\<open>has\<close>\<close>

text \<open>
  Claim C9. \<^verbatim>\<open>has(cls)\<close> is true exactly for a class that carries the slot
  \<^verbatim>\<open>__attrs_attrs__\<close>, also when the sequence in the slot is empty; it is false for a class
  without the slot and for every type expression that is no such class. \<open>has\<close> is a
  total function into \<open>bool\<close>: it neither raises nor changes anything.
\<close>

theorem has_iff_slot:
  "(has cls \<longleftrightarrow> (\<exists>n attrs. cls = TClass n (Some attrs)))
   \<and> has (TClass n (Some []))
   \<and> \<not> has (TClass n None)
   \<and> \<not> has TNoneType \<and> \<not> has TStr \<and> \<not> has TAny \<and> \<not> has (TUnion ps)
   \<and> \<not> has (TDict p) \<and> \<not> has (TIterable m q)"
  by (cases cls) (auto simp: has_def attrs_attrs_def)

section \<open>Properties of \<^verbatim>\<open>asdict\<close>\<close>


text \<open>The loop returns a dict, and leaves alone every key that is no remaining attribute.\<close>

lemma asdict_attrs_preserves:
  "asdict_attrs inst r f t as rv = Inr res \<Longrightarrow>
   \<exists>d. res = VDict d \<and> (\<forall>k. k \<notin> (\<lambda>a. VStr (name a)) ` set as \<longrightarrow> map_of d k = map_of rv k)"
proof (induction as arbitrary: rv)
  case Nil
  then show ?case by auto
next
  case (Cons a as)
  from Cons.prems obtain v where v: "getattr inst (name a) = Inr v"
    by (auto split: sum.splits)
  from Cons.prems v obtain b where b: "(case f of None \<Rightarrow> Inr True | Some g \<Rightarrow> g a v) = Inr b"
    by (auto split: sum.splits)
  show ?case
  proof (cases b)
    case False
    with Cons.prems v b have "asdict_attrs inst r f t as rv = Inr res" by simp
    from Cons.IH[OF this] show ?thesis by auto
  next
    case True
    with Cons.prems v b obtain w where w: "asdict_value v r f t = Inr w"
      and rest: "asdict_attrs inst r f t as (AList.update (VStr (name a)) w rv) = Inr res"
      by (auto split: sum.splits simp del: asdict_value.simps)
    from Cons.IH[OF rest] show ?thesis by (auto simp: update_conv')
  qed
qed

lemma asdict_attrs_keeps:
  assumes "asdict_attrs inst r f t as rv = Inr (VDict d)" and "n \<notin> name ` set as"
  shows "map_of d (VStr n) = map_of rv (VStr n)"
proof -
  from assms(2) have "VStr n \<notin> (\<lambda>a. VStr (name a)) ` set as" by auto
  with asdict_attrs_preserves[OF assms(1)] show ?thesis by auto
qed

text \<open>
  What the returned dict holds under the name of an attribute: the value that
  \<open>asdict_value\<close> computed when the filter accepted the attribute, and what was there
  before the loop (nothing, for \<open>asdict\<close>) when the filter rejected it.
\<close>

lemma asdict_attrs_entry:
  "asdict_attrs inst r f t as rv = Inr (VDict d) \<Longrightarrow> distinct (map name as) \<Longrightarrow>
   a \<in> set as \<Longrightarrow> getattr inst (name a) = Inr v \<Longrightarrow>
   map_of d (VStr (name a)) =
     (case (case f of None \<Rightarrow> Inr True | Some g \<Rightarrow> g a v) of
        Inr True \<Rightarrow> (case asdict_value v r f t of Inr w \<Rightarrow> Some w | Inl e \<Rightarrow> None)
      | _ \<Rightarrow> map_of rv (VStr (name a)))"
proof (induction as arbitrary: rv)
  case Nil
  then show ?case by auto
next
  case (Cons b as)
  from Cons.prems obtain u where u: "getattr inst (name b) = Inr u"
    by (auto split: sum.splits)
  from Cons.prems u obtain c where c: "(case f of None \<Rightarrow> Inr True | Some g \<Rightarrow> g b u) = Inr c"
    by (auto split: sum.splits)
  show ?case
  proof (cases c)
    case False
    with Cons.prems u c have rest: "asdict_attrs inst r f t as rv = Inr (VDict d)" by simp
    show ?thesis
    proof (cases "a = b")
      case True
      with Cons.prems have "name b \<notin> name ` set as" by auto
      from asdict_attrs_keeps[OF rest this] Cons.prems u c False True show ?thesis
        by (auto simp del: asdict_value.simps)
    next
      case ne: False
      with Cons.prems have "a \<in> set as" "distinct (map name as)" by auto
      from Cons.IH[OF rest this(2) this(1) Cons.prems(4)] show ?thesis .
    qed
  next
    case True
    with Cons.prems u c obtain w where w: "asdict_value u r f t = Inr w"
      and rest: "asdict_attrs inst r f t as (AList.update (VStr (name b)) w rv) = Inr (VDict d)"
      by (auto split: sum.splits simp del: asdict_value.simps)
    show ?thesis
    proof (cases "a = b")
      case ab: True
      with Cons.prems have "name b \<notin> name ` set as" by auto
      from asdict_attrs_keeps[OF rest this] Cons.prems u c True w ab show ?thesis
        by (auto simp: update_conv' simp del: asdict_value.simps)
    next
      case ne: False
      with Cons.prems have a0: "a \<in> set as" "distinct (map name as)" "name b \<notin> name ` set as"
        by auto
      then have a: "a \<in> set as" "distinct (map name as)" "name a \<noteq> name b"
        by (auto simp: image_iff)
      from Cons.IH[OF rest a(2) a(1) Cons.prems(4)] a(3) show ?thesis
        by (auto simp: update_conv' simp del: asdict_value.simps split: sum.splits bool.splits)
    qed
  qed
qed

text \<open>
  Claim C10. A string is a leaf for \<^verbatim>\<open>asdict\<close> with \<^verbatim>\<open>recurse=True\<close>: whatever
  \<^verbatim>\<open>retain_collection_types\<close> is, the value stored for it is the string itself, never a
  sequence of its characters. So for an attribute whose value is the string \<open>s\<close> and that
  the filter accepts, the dict that \<^verbatim>\<open>asdict\<close> returns has \<open>s\<close> under the attribute's
  name.
\<close>

theorem asdict_str_unchanged:
  assumes "fields cls = Inr attrs"
    and "distinct (map name attrs)"
    and "a \<in> set attrs"
    and "map_of d (name a) = Some (VStr s)"
    and "(case f of None \<Rightarrow> Inr True | Some g \<Rightarrow> g a (VStr s)) = Inr True"
    and "asdict (VInst cls d) True f t = Inr res"
  shows "asdict_value (VStr s) True f t = Inr (VStr s)
    \<and> (\<exists>rv. res = VDict rv \<and> map_of rv (VStr (name a)) = Some (VStr s))"
proof -
  have leaf: "asdict_value (VStr s) True f t = Inr (VStr s)"
    by (simp add: has_def attrs_attrs_def)
  from assms(1,6) have loop: "asdict_attrs (VInst cls d) True f t attrs [] = Inr res"
    by simp
  from asdict_attrs_preserves[OF loop] obtain rv where rv: "res = VDict rv"
    by auto
  from assms(4) have g: "getattr (VInst cls d) (name a) = Inr (VStr s)"
    by simp
  from asdict_attrs_entry[OF loop[unfolded rv] assms(2,3) g] assms(5) leaf
  have "map_of rv (VStr (name a)) = Some (VStr s)"
    by (simp del: asdict_value.simps)
  with leaf rv show ?thesis by simp
qed

theorem asdict_str_unchanged_witness:
  "asdict (VInst (TClass ''C'' (Some [Attribute ''x'' None, Attribute ''y'' None]))
      [(''x'', VStr ''ab''), (''y'', VInt 2)]) True None True
     = Inr (VDict [(VStr ''x'', VStr ''ab''), (VStr ''y'', VInt 2)])
   \<and> asdict_value (VStr ''ab'') True None True = Inr (VStr ''ab'')
   \<and> (\<exists>rv. VDict [(VStr ''x'', VStr ''ab''), (VStr ''y'', VInt 2)] = VDict rv
         \<and> map_of rv (VStr (name (Attribute ''x'' None))) = Some (VStr ''ab''))"
proof -
  let ?attrs = "[Attribute ''x'' None, Attribute ''y'' None]"
  let ?cls = "TClass ''C'' (Some ?attrs)"
  let ?d = "[(''x'', VStr ''ab''), (''y'', VInt 2)]"
  have 1: "fields ?cls = Inr ?attrs" by (simp add: fields_def attrs_attrs_def)
  have 2: "distinct (map name ?attrs)" by simp
  have 3: "Attribute ''x'' None \<in> set ?attrs" by simp
  have 4: "map_of ?d (name (Attribute ''x'' None)) = Some (VStr ''ab'')" by simp
  have 5: "(case None :: filter_fn option of None \<Rightarrow> Inr True
            | Some g \<Rightarrow> g (Attribute ''x'' None) (VStr ''ab'')) = Inr True" by simp
  have 6: "asdict (VInst ?cls ?d) True None True
      = Inr (VDict [(VStr ''x'', VStr ''ab''), (VStr ''y'', VInt 2)])"
    by (simp add: fields_def attrs_attrs_def has_def)
  from asdict_str_unchanged[OF 1 2 3 4 5 6] 6 show ?thesis by blast
qed


text \<open>
  Claim C2. The claim: \<^verbatim>\<open>asdict(instance, filter=f, recurse=True)\<close> applies the filter at
  every level of the recursion, also inside declaratively-attributed values that are keys
  or values of a dict. The source passes \<^verbatim>\<open>filter\<close> on to the nested call for an
  attribute value and for an element of a list, but not to the nested calls for the keys
  and values of a dict. With a filter that drops \<^verbatim>\<open>y\<close>, the instance \<^verbatim>\<open>C(1, 2)\<close> that is a
  value of a dict keeps its \<^verbatim>\<open>y\<close>, while the same instance in a list loses it; and an
  instance that is a key of a dict makes \<^verbatim>\<open>asdict\<close> fail, its conversion being an
  unhashable dict.
\<close>

theorem asdict_filter_skips_dict_values:
  "asdict (VInst class_Outer [(''d'', VDict [(VStr ''k'', inst_C (VInt 1) (VInt 2))])])
      True (Some drop_y) False
     = Inr (VDict [(VStr ''d'', VDict [(VStr ''k'',
          VDict [(VStr ''x'', VInt 1), (VStr ''y'', VInt 2)])])])
   \<and> asdict (VInst class_Outer [(''d'', VList [inst_C (VInt 1) (VInt 2)])])
      True (Some drop_y) False
     = Inr (VDict [(VStr ''d'', VList [VDict [(VStr ''x'', VInt 1)]])])
   \<and> asdict (VInst class_Outer [(''d'', VDict [(inst_C (VInt 1) (VInt 2), VInt 0)])])
      True (Some drop_y) False
     = Inl unhashable"
  by (simp add: class_Outer_def inst_C_def class_C_def drop_y_def fields_def attrs_attrs_def
      has_def mk_list_def)








subsection \<open>The exceptions that leave \<^verbatim>\<open>asdict\<close>\<close>

lemma filter_raise_simps [simp]:
  "filter_raise flt unhashable" "filter_raise flt (AttributeError s)"
  "filter_raise flt (ValueError m)" "f a v = Inl e \<Longrightarrow> filter_raise (Some f) e"
  by (auto simp: filter_raise_def)






section \<open>Properties of \<^verbatim>\<open>fromdict\<close>\<close>







subsection \<open>The exceptions that leave \<^verbatim>\<open>fromdict\<close>\<close>

lemma may_raise_simps [simp]:
  "may_raise P (TypeError m)" "may_raise P (AttributeError s)" "may_raise P (ValueError m')"
  "\<not> ignore_missing P \<Longrightarrow> may_raise P (KeyError s)"
  "union_discriminator P v t = Inl e \<Longrightarrow> may_raise P e"
  by (auto simp: may_raise_def)

lemma no_method_raise [simp]: "may_raise P (no_method v m)"
  by (cases v) (auto simp: no_method_def split: option.splits)















subsection \<open>Missing keys\<close>








subsection \<open>Type mismatches\<close>







subsection \<open>Optional types\<close>

lemma is_optional_TUnion [simp]: "is_optional (TUnion ps) = (TNoneType \<in> set ps)"
  by (simp add: is_optional_def issubclass_Union_def union_params_def list_ex_iff)

lemma is_optional_not_has: "is_optional typ \<Longrightarrow> \<not> has typ"
  by (cases "typ") (auto simp: is_optional_def issubclass_Union_def has_def attrs_attrs_def)

lemma deserialize_optional_none:
  "is_optional typ \<Longrightarrow> deserialize_val (Suc n) P ctx key VNone typ nm = Some (Inr VNone)"
  by (simp add: is_optional_not_has reraise_def)

lemma deserialize_optional_pair:
  "a \<noteq> VNone \<Longrightarrow>
   deserialize_val (Suc n) P ctx key a (TUnion [X, TNoneType]) nm
     = reraise a (TUnion [X, TNoneType]) (path ctx key) (deserialize_val n P ctx key a X nm)"
  by (simp add: has_def attrs_attrs_def union_params_def)

lemma deserialize_optional_many:
  "a \<noteq> VNone \<Longrightarrow> TNoneType \<in> set ps \<Longrightarrow> 2 < length ps \<Longrightarrow>
   2 \<le> length (filter (\<lambda>t. t \<noteq> TNoneType) ps) \<Longrightarrow>
   deserialize_val (Suc n) P ctx key a (TUnion ps) nm
     = reraise a (TUnion ps) (path ctx key)
         (deserialize_val n P ctx key a (TUnion (filter (\<lambda>t. t \<noteq> TNoneType) ps)) nm)"
  by (auto simp: has_def attrs_attrs_def union_params_def mk_Union_def split: list.splits)

lemma deserialize_optional_none_first:
  "a \<noteq> VNone \<Longrightarrow>
   deserialize_val (Suc (Suc n)) P ctx key a (TUnion [TNoneType, X]) nm = Some (Inr a)"
  by (simp add: has_def attrs_attrs_def union_params_def issubclass_Dict_def
      issubclass_Iterable_def issubclass_Union_def is_optional_def reraise_def)

text \<open>
  Claim C7. The claim: for a field declared as optional-of-X, a source value other than
  \<^verbatim>\<open>None\<close> is deserialized as X, the remaining alternative. The source strips the wrapper
  of a union of two alternatives with \<^verbatim>\<open>typ.__union_params__[0]\<close>, which is \<^verbatim>\<open>NoneType\<close>
  when the union is written \<^verbatim>\<open>Union[None, X]\<close>: then the value is passed through as it
  is, here the dict that should have become an instance of \<^verbatim>\<open>C\<close>. With
  \<^verbatim>\<open>Union[C, None]\<close> the same value becomes \<^verbatim>\<open>C(1, 2)\<close>.
\<close>

theorem fromdict_optional_none_first:
  "fromdict (Suc (Suc (Suc (Suc 0)))) (Opts True False (\<lambda>a. a) default_discriminator (\<lambda>v. []))
      (class_D (TUnion [TNoneType, class_C]))
      (VDict [(VStr ''f'', VDict [(VStr ''x'', VInt 1), (VStr ''y'', VInt 2)])])
     = Some (Inr (VInst (class_D (TUnion [TNoneType, class_C]))
          [(''f'', VDict [(VStr ''x'', VInt 1), (VStr ''y'', VInt 2)])]))
   \<and> fromdict (Suc (Suc (Suc (Suc 0)))) (Opts True False (\<lambda>a. a) default_discriminator (\<lambda>v. []))
      (class_D (TUnion [class_C, TNoneType]))
      (VDict [(VStr ''f'', VDict [(VStr ''x'', VInt 1), (VStr ''y'', VInt 2)])])
     = Some (Inr (VInst (class_D (TUnion [class_C, TNoneType]))
          [(''f'', inst_C (VInt 1) (VInt 2))]))"
  by (simp add: fromdict_def class_D_def class_C_def inst_C_def fields_def attrs_attrs_def
      has_def Let_def construct_def union_params_def issubclass_Dict_def
      issubclass_Iterable_def issubclass_Union_def is_optional_def reraise_def)

subsection \<open>Exceptions of the callbacks\<close>




section \<open>Properties of \<^verbatim>\<open>assoc\<close>\<close>







end
